theory Spec2Isabelle
  imports Main "HOL-Library.Word"
begin

unbundle bit_operations_syntax

section \<open>The Windows stub of \<open>sys_alloc_aligned\<close>\<close>

text \<open>
  The source file \<^verbatim>\<open>windows_stub/sys_alloc.c\<close> holds one function:
  \<^verbatim>\<open>
  void* _aligned_malloc(size_t size, size_t alignment);

  __declspec(dllexport) void* sys_alloc_aligned(size_t size, size_t alignment) {
      return _aligned_malloc(size, alignment);
  }
  \<close>
  It is compiled for \<^verbatim>\<open>x86_64-pc-windows-msvc\<close>, where \<^verbatim>\<open>size_t\<close> and
  \<^verbatim>\<open>void*\<close> are 64 bits wide. The null pointer is the address 0.
\<close>

subsection \<open>Data\<close>

type_synonym size_t = "64 word"
type_synonym ptr = "64 word"

abbreviation NULL :: ptr where
  "NULL \<equiv> 0"

text \<open>
  \<^verbatim>\<open>_aligned_malloc\<close> is only declared in the source (line 65); its body belongs to
  the MSVC runtime. It is therefore a parameter of the model: a function of the two
  arguments and of the state \<open>'h\<close> that the runtime owns (its heap and bookkeeping),
  giving the returned pointer and the runtime's new state. \<open>None\<close> stands for a call
  that does not return (the runtime ends the process, or never comes back).
\<close>

type_synonym 'h aligned_malloc = "size_t \<Rightarrow> size_t \<Rightarrow> 'h \<Rightarrow> (ptr \<times> 'h) option"

text \<open>
  A process is the state owned by the runtime together with everything else: the
  globals, locks and memory of the program that links the stub.
\<close>

record ('h, 'g) process =
  runtime :: 'h
  program :: 'g

subsection \<open>The function\<close>

text \<open>
  The body is the single statement \<^verbatim>\<open>return _aligned_malloc(size, alignment);\<close>:
  the host primitive is called once on the runtime's state with the two arguments, and
  the pointer it returns is the result. The stub has no variable of its own.
\<close>

definition sys_alloc_aligned ::
  "'h aligned_malloc \<Rightarrow> size_t \<Rightarrow> size_t \<Rightarrow> ('h, 'g) process \<Rightarrow> (ptr \<times> ('h, 'g) process) option"
where
  "sys_alloc_aligned host size' alignment p =
     (case host size' alignment (runtime p) of
        None \<Rightarrow> None
      | Some (r, h') \<Rightarrow> Some (r, p\<lparr>runtime := h'\<rparr>))"

text \<open>
  The contract of section 4.1 of the specification, in its words: the boundary
  delegates to the host primitive with the given \<open>(size, alignment)\<close> pair and returns
  exactly what the host primitive returns; nothing is rounded, padded, initialised or
  retried, so the only change of state is the one the host call makes.
\<close>

definition allocate_aligned ::
  "'h aligned_malloc \<Rightarrow> size_t \<Rightarrow> size_t \<Rightarrow> ('h, 'g) process \<Rightarrow> (ptr \<times> ('h, 'g) process) option"
where
  "allocate_aligned host size' alignment p =
     map_option (\<lambda>answer. (fst answer, p\<lparr>runtime := snd answer\<rparr>))
       (host size' alignment (runtime p))"

subsection \<open>Observing the call\<close>

text \<open>
  To say which call reaches the host primitive, a host is wrapped so that it records
  the argument pair of every call it receives and returns, besides doing what it does.
  The record is kept with the runtime's state; the stub's model is not changed.
\<close>

definition traced :: "'h aligned_malloc \<Rightarrow> ((size_t \<times> size_t) list \<times> 'h) aligned_malloc" where
  "traced host size' alignment th =
     (case host size' alignment (snd th) of
        None \<Rightarrow> None
      | Some (r, h') \<Rightarrow> Some (r, (fst th @ [(size', alignment)], h')))"

subsection \<open>The host primitive's contract\<close>

text \<open>
  A power of two, as a \<^verbatim>\<open>size_t\<close>: not zero, and with a single bit set.
\<close>

definition is_pow2 :: "size_t \<Rightarrow> bool" where
  "is_pow2 a \<longleftrightarrow> a \<noteq> 0 \<and> a AND (a - 1) = 0"

text \<open>
  Modelled from the spec: the body of \<^verbatim>\<open>_aligned_malloc\<close> is missing (MSVC
  runtime). Section 3 of the specification describes a successful result as an address
  divisible by \<open>alignment\<close>: for a power-of-two alignment, a non-null pointer returned
  by the host is a multiple of the alignment.
\<close>

definition host_aligns :: "'h aligned_malloc \<Rightarrow> bool" where
  "host_aligns host \<longleftrightarrow>
     (\<forall>size' alignment h r h'.
        is_pow2 alignment \<and> host size' alignment h = Some (r, h') \<and> r \<noteq> NULL
        \<longrightarrow> unat r mod unat alignment = 0)"

text \<open>
  Modelled from the spec: the body of \<^verbatim>\<open>_aligned_malloc\<close> is missing (MSVC
  runtime). Sections 3 and 8 of the specification: a successful result is a block of
  at least \<open>size\<close> bytes that overlaps no memory already allocated and not yet released,
  and no pointer is returned twice while the first is still live. A block is its base
  address and its size; two blocks are separated when one ends at or before the start
  of the other. The blocks that are live in a state of the runtime are given by \<open>live\<close>.
\<close>

definition separated :: "ptr \<times> size_t \<Rightarrow> ptr \<times> size_t \<Rightarrow> bool" where
  "separated x y \<longleftrightarrow>
     unat (fst x) + unat (snd x) \<le> unat (fst y) \<or> unat (fst y) + unat (snd y) \<le> unat (fst x)"

definition host_allocates_fresh ::
  "('h \<Rightarrow> (ptr \<times> size_t) set) \<Rightarrow> 'h aligned_malloc \<Rightarrow> bool"
where
  "host_allocates_fresh live host \<longleftrightarrow>
     (\<forall>size' alignment h r h'.
        host size' alignment h = Some (r, h') \<and> r \<noteq> NULL \<longrightarrow>
          unat r + unat size' \<le> 2 ^ 64 \<and>
          (r, size') \<in> live h' \<and>
          (\<forall>b \<in> live h. fst b \<noteq> r \<and> separated (r, size') b))"

text \<open>
  Modelled from the spec: the body of \<^verbatim>\<open>_aligned_malloc\<close> is missing (MSVC
  runtime). Section 4.1 of the specification: the host primitive answers exhaustion
  with the null indicator. Which requests a state of the runtime can satisfy is given
  by \<open>satisfiable\<close>; a request it cannot satisfy is answered, and answered with null.
\<close>

definition signals_exhaustion_by_null ::
  "('h \<Rightarrow> size_t \<Rightarrow> size_t \<Rightarrow> bool) \<Rightarrow> 'h aligned_malloc \<Rightarrow> bool"
where
  "signals_exhaustion_by_null satisfiable host \<longleftrightarrow>
     (\<forall>size' alignment h.
        \<not> satisfiable h size' alignment \<longrightarrow> (\<exists>h'. host size' alignment h = Some (NULL, h')))"

subsection \<open>A host that meets the contract\<close>

text \<open>
  Modelled from the spec: the body of \<^verbatim>\<open>_aligned_malloc\<close> is missing (MSVC
  runtime). One host primitive providing the operation of section 6, "allocate N bytes
  aligned to A, return pointer or null", shows that the contract above can be met: a
  bump allocator over the addresses from \<open>heap_base\<close> up to \<open>heap_limit\<close>. Its state is
  the list of live blocks. A request is placed at the first multiple of the alignment
  at or above every live block; a zero size, an alignment that is not a power of two,
  and a request that does not fit below \<open>heap_limit\<close> are answered with null.
\<close>

definition heap_base :: nat where
  "heap_base = 4096"

definition heap_limit :: nat where
  "heap_limit = 2 ^ 32"

definition round_up :: "nat \<Rightarrow> nat \<Rightarrow> nat" where
  "round_up t a = ((t + a - 1) div a) * a"

fun heap_top :: "(ptr \<times> size_t) list \<Rightarrow> nat" where
  "heap_top [] = heap_base"
| "heap_top (b # bs) = max (unat (fst b) + max 1 (unat (snd b))) (heap_top bs)"

definition bump_fits :: "(ptr \<times> size_t) list \<Rightarrow> size_t \<Rightarrow> size_t \<Rightarrow> bool" where
  "bump_fits bs size' alignment \<longleftrightarrow>
     round_up (heap_top bs) (unat alignment) + unat size' \<le> heap_limit"

definition bump_aligned_malloc :: "(ptr \<times> size_t) list aligned_malloc" where
  "bump_aligned_malloc size' alignment bs =
     (if size' = 0 \<or> \<not> is_pow2 alignment \<or> \<not> bump_fits bs size' alignment
      then Some (NULL, bs)
      else Some (of_nat (round_up (heap_top bs) (unat alignment)),
                 (of_nat (round_up (heap_top bs) (unat alignment)), size') # bs))"

section \<open>The bump allocator meets the contract\<close>

lemmas bump_eval = sys_alloc_aligned_def bump_aligned_malloc_def is_pow2_def bump_fits_def
  round_up_def heap_base_def heap_limit_def

lemma round_up_ge: "0 < a \<Longrightarrow> t \<le> round_up t a"
proof -
  assume a: "0 < a"
  have "t + a - 1 = (t + a - 1) div a * a + (t + a - 1) mod a"
    by simp
  moreover have "(t + a - 1) mod a < a"
    using a by simp
  ultimately show ?thesis
    unfolding round_up_def by linarith
qed

lemma round_up_mod: "round_up t a mod a = 0"
  by (simp add: round_up_def)

lemma heap_top_ge: "b \<in> set bs \<Longrightarrow> unat (fst b) + max 1 (unat (snd b)) \<le> heap_top bs"
  by (induction bs) auto

lemma is_pow2_pos: "is_pow2 a \<Longrightarrow> 0 < unat a"
  by (simp add: is_pow2_def unat_gt_0)

lemma bump_start:
  assumes "bump_fits bs size' alignment"
  shows "unat (of_nat (round_up (heap_top bs) (unat alignment)) :: ptr)
       = round_up (heap_top bs) (unat alignment)"
proof -
  have "round_up (heap_top bs) (unat alignment) \<le> heap_limit"
    using assms by (simp add: bump_fits_def)
  then have "round_up (heap_top bs) (unat alignment) < 2 ^ 64"
    by (simp add: heap_limit_def)
  then show ?thesis
    by (simp add: unat_of_nat)
qed

lemma bump_aligned_malloc_cases:
  assumes "bump_aligned_malloc size' alignment bs = Some (r, bs')" and "r \<noteq> NULL"
  shows "size' \<noteq> 0 \<and> is_pow2 alignment \<and> bump_fits bs size' alignment \<and>
         r = of_nat (round_up (heap_top bs) (unat alignment)) \<and> bs' = (r, size') # bs"
  using assms by (auto simp: bump_aligned_malloc_def split: if_splits)

lemma bump_aligns: "host_aligns bump_aligned_malloc"
  unfolding host_aligns_def
proof (intro allI impI, elim conjE)
  fix size' alignment :: size_t and bs bs' :: "(ptr \<times> size_t) list" and r :: ptr
  assume "bump_aligned_malloc size' alignment bs = Some (r, bs')" and "r \<noteq> NULL"
  then have f: "bump_fits bs size' alignment"
    and r: "r = of_nat (round_up (heap_top bs) (unat alignment))"
    using bump_aligned_malloc_cases by blast+
  show "unat r mod unat alignment = 0"
    unfolding r bump_start [OF f] by (rule round_up_mod)
qed

lemma bump_fresh: "host_allocates_fresh set bump_aligned_malloc"
  unfolding host_allocates_fresh_def
proof (intro allI impI, elim conjE)
  fix size' alignment :: size_t and bs bs' :: "(ptr \<times> size_t) list" and r :: ptr
  assume "bump_aligned_malloc size' alignment bs = Some (r, bs')" and "r \<noteq> NULL"
  then have f: "bump_fits bs size' alignment" and p: "is_pow2 alignment"
    and r: "r = of_nat (round_up (heap_top bs) (unat alignment))"
    and bs': "bs' = (r, size') # bs"
    using bump_aligned_malloc_cases by blast+
  have start: "unat r = round_up (heap_top bs) (unat alignment)"
    unfolding r by (rule bump_start [OF f])
  have top: "heap_top bs \<le> unat r"
    unfolding start by (rule round_up_ge [OF is_pow2_pos [OF p]])
  have "unat r + unat size' \<le> heap_limit"
    using f by (simp add: bump_fits_def start)
  then have inside: "unat r + unat size' \<le> 2 ^ 64"
    by (simp add: heap_limit_def)
  have old: "fst b \<noteq> r \<and> separated (r, size') b" if "b \<in> set bs" for b
  proof -
    have "unat (fst b) + max 1 (unat (snd b)) \<le> unat r"
      using heap_top_ge [OF that] top by simp
    then show ?thesis
      by (auto simp: separated_def)
  qed
  show "unat r + unat size' \<le> 2 ^ 64 \<and> (r, size') \<in> set bs' \<and>
        (\<forall>b \<in> set bs. fst b \<noteq> r \<and> separated (r, size') b)"
    using inside old by (simp add: bs')
qed

lemma bump_signals: "signals_exhaustion_by_null bump_fits bump_aligned_malloc"
  by (simp add: signals_exhaustion_by_null_def bump_aligned_malloc_def)

section \<open>Properties of \<open>sys_alloc_aligned\<close>\<close>

lemma sys_alloc_aligned_answer:
  "map_option fst (sys_alloc_aligned host size' alignment p)
     = map_option fst (host size' alignment (runtime p))"
  by (simp add: sys_alloc_aligned_def split: option.split)

text \<open>
  C1. For every \<open>(size, alignment)\<close> with \<open>alignment\<close> a power of two, a non-null
  pointer returned by \<open>sys_alloc_aligned\<close> is divisible by \<open>alignment\<close>. The stub
  hands back the host's pointer as it is, so the alignment is the one the host
  primitive gives: the property holds over every host that returns aligned addresses.
  The instance is the page-aligned request \<open>(4096, 4096)\<close> on the bump allocator.
\<close>

theorem sys_alloc_aligned_result_aligned:
  assumes "host_aligns host" and "is_pow2 alignment"
    and "sys_alloc_aligned host size' alignment p = Some (r, p')" and "r \<noteq> NULL"
  shows "unat r mod unat alignment = 0"
proof -
  from assms(3) obtain h' where "host size' alignment (runtime p) = Some (r, h')"
    by (auto simp: sys_alloc_aligned_def split: option.splits)
  with assms(1,2,4) show ?thesis
    unfolding host_aligns_def by blast
qed

theorem sys_alloc_aligned_result_aligned_witness:
  "host_aligns bump_aligned_malloc \<and> is_pow2 4096 \<and>
   sys_alloc_aligned bump_aligned_malloc 4096 4096 \<lparr>runtime = [(4096, 64)], program = ()\<rparr>
     = Some (8192, \<lparr>runtime = [(8192, 4096), (4096, 64)], program = ()\<rparr>) \<and>
   (8192 :: ptr) \<noteq> NULL \<and> unat (8192 :: ptr) mod unat (4096 :: size_t) = 0"
proof -
  have a: "host_aligns bump_aligned_malloc"
    by (rule bump_aligns)
  have b: "is_pow2 4096"
    by (simp add: is_pow2_def)
  have c: "sys_alloc_aligned bump_aligned_malloc 4096 4096 \<lparr>runtime = [(4096, 64)], program = ()\<rparr>
     = Some (8192, \<lparr>runtime = [(8192, 4096), (4096, 64)], program = ()\<rparr>)"
    by (simp add: bump_eval)
  have d: "(8192 :: ptr) \<noteq> NULL"
    by simp
  from sys_alloc_aligned_result_aligned [OF a b c d] a b c d show ?thesis
    by blast
qed

text \<open>
  C2. For every \<open>(size, alignment)\<close>, \<open>sys_alloc_aligned\<close> is the host primitive's
  call on the same pair: the arguments go through unchanged, the returned pointer comes
  back untranslated, and the state after the call is the state the one host call left
  (nothing rounded, padded, initialised or retried).
\<close>

theorem sys_alloc_aligned_refines_allocate_aligned:
  "sys_alloc_aligned host size' alignment p = allocate_aligned host size' alignment p"
  by (simp add: sys_alloc_aligned_def allocate_aligned_def split: option.split)

text \<open>
  C3. The only failure signal \<open>sys_alloc_aligned\<close> produces is a null return
  value. The stub fails to return only when the host call itself does not return;
  whatever the stub returns is the host's own pointer with the host's own state, so a
  null result is the host's null and a host's success is never turned into a failure.
  When the host primitive fails, that is, returns null, the stub returns that null:
  the call returns (no abort), the result is null (no recovery, no other signal), the
  program's state is untouched (no logging), and the host has been called exactly
  once, with the given pair (no retry). The instance is a request the bump allocator
  answers with null and one it answers with a pointer.
\<close>

theorem sys_alloc_aligned_null_verbatim:
  "(sys_alloc_aligned host size' alignment \<lparr>runtime = h, program = g\<rparr> = None
      \<longleftrightarrow> host size' alignment h = None) \<and>
   (\<forall>r p'. sys_alloc_aligned host size' alignment \<lparr>runtime = h, program = g\<rparr> = Some (r, p')
      \<longrightarrow> (\<exists>h'. host size' alignment h = Some (r, h') \<and> p' = \<lparr>runtime = h', program = g\<rparr>)) \<and>
   (\<forall>h'. host size' alignment h = Some (NULL, h') \<longrightarrow>
      sys_alloc_aligned host size' alignment \<lparr>runtime = h, program = g\<rparr>
        = Some (NULL, \<lparr>runtime = h', program = g\<rparr>) \<and>
      sys_alloc_aligned (traced host) size' alignment \<lparr>runtime = (cs, h), program = g\<rparr>
        = Some (NULL, \<lparr>runtime = (cs @ [(size', alignment)], h'), program = g\<rparr>))"
proof (intro conjI allI impI)
  show "sys_alloc_aligned host size' alignment \<lparr>runtime = h, program = g\<rparr> = None
      \<longleftrightarrow> host size' alignment h = None"
    by (simp add: sys_alloc_aligned_def split: option.split)
next
  fix r p'
  assume "sys_alloc_aligned host size' alignment \<lparr>runtime = h, program = g\<rparr> = Some (r, p')"
  then show "\<exists>h'. host size' alignment h = Some (r, h') \<and> p' = \<lparr>runtime = h', program = g\<rparr>"
    by (auto simp: sys_alloc_aligned_def split: option.splits)
next
  fix h'
  assume a: "host size' alignment h = Some (NULL, h')"
  then show "sys_alloc_aligned host size' alignment \<lparr>runtime = h, program = g\<rparr>
        = Some (NULL, \<lparr>runtime = h', program = g\<rparr>)"
    by (simp add: sys_alloc_aligned_def)
  from a show "sys_alloc_aligned (traced host) size' alignment \<lparr>runtime = (cs, h), program = g\<rparr>
        = Some (NULL, \<lparr>runtime = (cs @ [(size', alignment)], h'), program = g\<rparr>)"
    by (simp add: sys_alloc_aligned_def traced_def)
qed

theorem sys_alloc_aligned_null_verbatim_witness:
  "bump_aligned_malloc 18446744073709551615 8 [(4096, 64)] = Some (NULL, [(4096, 64)]) \<and>
   sys_alloc_aligned bump_aligned_malloc 18446744073709551615 8
       \<lparr>runtime = [(4096, 64)], program = ''guest''\<rparr>
     = Some (NULL, \<lparr>runtime = [(4096, 64)], program = ''guest''\<rparr>) \<and>
   sys_alloc_aligned (traced bump_aligned_malloc) 18446744073709551615 8
       \<lparr>runtime = ([], [(4096, 64)]), program = ''guest''\<rparr>
     = Some (NULL, \<lparr>runtime = ([(18446744073709551615, 8)], [(4096, 64)]), program = ''guest''\<rparr>) \<and>
   bump_aligned_malloc 64 8 [] \<noteq> None \<and>
   sys_alloc_aligned bump_aligned_malloc 64 8 \<lparr>runtime = [], program = ''guest''\<rparr> \<noteq> None \<and>
   sys_alloc_aligned bump_aligned_malloc 64 8 \<lparr>runtime = [], program = ''guest''\<rparr>
     = Some (4096, \<lparr>runtime = [(4096, 64)], program = ''guest''\<rparr>) \<and>
   bump_aligned_malloc 64 8 [] = Some (4096, [(4096, 64)])"
proof -
  have a: "bump_aligned_malloc 18446744073709551615 8 [(4096, 64)] = Some (NULL, [(4096, 64)])"
    by (simp add: bump_eval)
  have b: "bump_aligned_malloc 64 8 [] = Some (4096, [(4096, 64)])"
    by (simp add: bump_eval)
  note null = sys_alloc_aligned_null_verbatim
    [of bump_aligned_malloc 18446744073709551615 8 "[(4096, 64)]" "''guest''" "[]"]
  note good = sys_alloc_aligned_null_verbatim [of bump_aligned_malloc 64 8 "[]" "''guest''" "[]"]
  from null a
  have n: "sys_alloc_aligned bump_aligned_malloc 18446744073709551615 8
       \<lparr>runtime = [(4096, 64)], program = ''guest''\<rparr>
     = Some (NULL, \<lparr>runtime = [(4096, 64)], program = ''guest''\<rparr>) \<and>
   sys_alloc_aligned (traced bump_aligned_malloc) 18446744073709551615 8
       \<lparr>runtime = ([], [(4096, 64)]), program = ''guest''\<rparr>
     = Some (NULL, \<lparr>runtime = ([(18446744073709551615, 8)], [(4096, 64)]), program = ''guest''\<rparr>)"
    by simp
  from good b
  have r: "sys_alloc_aligned bump_aligned_malloc 64 8 \<lparr>runtime = [], program = ''guest''\<rparr> \<noteq> None"
    by simp
  then obtain q p' where
    s: "sys_alloc_aligned bump_aligned_malloc 64 8 \<lparr>runtime = [], program = ''guest''\<rparr> = Some (q, p')"
    by (cases "sys_alloc_aligned bump_aligned_malloc 64 8 \<lparr>runtime = [], program = ''guest''\<rparr>") auto
  with good b have "q = 4096 \<and> p' = \<lparr>runtime = [(4096, 64)], program = ''guest''\<rparr>"
    by auto
  with s have t: "sys_alloc_aligned bump_aligned_malloc 64 8 \<lparr>runtime = [], program = ''guest''\<rparr>
     = Some (4096, \<lparr>runtime = [(4096, 64)], program = ''guest''\<rparr>)"
    by simp
  from a b n r t show ?thesis
    by simp
qed





text \<open>
  C6. Given that the host primitive signals exhaustion by returning null, a request
  the host cannot satisfy makes \<open>sys_alloc_aligned\<close> return null: the call returns
  (no crash, no abort) and its result is the null pointer, not a non-null one. The
  instance is a request of \<open>2 ^ 64 - 1\<close> bytes on the bump allocator.
\<close>

theorem sys_alloc_aligned_unsatisfiable_null:
  assumes "signals_exhaustion_by_null satisfiable host"
    and "\<not> satisfiable (runtime p) size' alignment"
  shows "\<exists>h'. host size' alignment (runtime p) = Some (NULL, h') \<and>
              sys_alloc_aligned host size' alignment p = Some (NULL, p\<lparr>runtime := h'\<rparr>)"
proof -
  from assms obtain h' where "host size' alignment (runtime p) = Some (NULL, h')"
    unfolding signals_exhaustion_by_null_def by blast
  then show ?thesis
    by (simp add: sys_alloc_aligned_def)
qed

theorem sys_alloc_aligned_unsatisfiable_null_witness:
  "signals_exhaustion_by_null bump_fits bump_aligned_malloc \<and>
   \<not> bump_fits (runtime \<lparr>runtime = [(4096, 64)], program = ()\<rparr>) 18446744073709551615 8 \<and>
   (\<exists>h'. bump_aligned_malloc 18446744073709551615 8
            (runtime \<lparr>runtime = [(4096, 64)], program = ()\<rparr>) = Some (NULL, h') \<and>
     sys_alloc_aligned bump_aligned_malloc 18446744073709551615 8
         \<lparr>runtime = [(4096, 64)], program = ()\<rparr>
       = Some (NULL, \<lparr>runtime = [(4096, 64)], program = ()\<rparr>\<lparr>runtime := h'\<rparr>))"
proof -
  have a: "signals_exhaustion_by_null bump_fits bump_aligned_malloc"
    by (rule bump_signals)
  have b: "\<not> bump_fits (runtime \<lparr>runtime = [(4096, 64)], program = ()\<rparr>) 18446744073709551615 8"
    by (simp add: bump_eval)
  from sys_alloc_aligned_unsatisfiable_null [OF a b] a b show ?thesis
    by blast
qed

text \<open>
  C7. A non-null result of \<open>sys_alloc_aligned\<close> is the base of a block of \<open>size\<close>
  bytes inside the address space, live after the call, that is separated from every
  block that was live when the call was made and whose base differs from theirs; and a
  repeated call with the same \<open>(size, alignment)\<close>, made while the first block is
  live, returns a different pointer and a separated block. The stub adds nothing to
  and removes nothing from what the host does, so this holds over every host that
  allocates fresh blocks. The instance is two requests \<open>(64, 8)\<close> in a row on the
  bump allocator, with one block live beforehand.
\<close>

theorem sys_alloc_aligned_no_alias:
  assumes "host_allocates_fresh live host"
    and "sys_alloc_aligned host size' alignment p = Some (r, p')" and "r \<noteq> NULL"
  shows "unat r + unat size' \<le> 2 ^ 64 \<and> (r, size') \<in> live (runtime p') \<and>
         (\<forall>b \<in> live (runtime p). fst b \<noteq> r \<and> separated (r, size') b) \<and>
         (\<forall>r2 p2. sys_alloc_aligned host size' alignment p' = Some (r2, p2) \<and> r2 \<noteq> NULL
                  \<longrightarrow> r2 \<noteq> r \<and> separated (r2, size') (r, size'))"
proof -
  have fresh: "unat q + unat size' \<le> 2 ^ 64 \<and> (q, size') \<in> live (runtime s') \<and>
               (\<forall>b \<in> live (runtime s). fst b \<noteq> q \<and> separated (q, size') b)"
    if "sys_alloc_aligned host size' alignment s = Some (q, s')" and "q \<noteq> NULL" for s s' q
  proof -
    from that(1) obtain h' where "host size' alignment (runtime s) = Some (q, h')"
      and "runtime s' = h'"
      by (auto simp: sys_alloc_aligned_def split: option.splits)
    with assms(1) that(2) show ?thesis
      unfolding host_allocates_fresh_def by blast
  qed
  have first: "unat r + unat size' \<le> 2 ^ 64 \<and> (r, size') \<in> live (runtime p') \<and>
               (\<forall>b \<in> live (runtime p). fst b \<noteq> r \<and> separated (r, size') b)"
    using fresh [OF assms(2,3)] .
  have again: "r2 \<noteq> r \<and> separated (r2, size') (r, size')"
    if "sys_alloc_aligned host size' alignment p' = Some (r2, p2)" and "r2 \<noteq> NULL" for r2 p2
  proof -
    have "\<forall>b \<in> live (runtime p'). fst b \<noteq> r2 \<and> separated (r2, size') b"
      using fresh [OF that] by blast
    moreover have "(r, size') \<in> live (runtime p')"
      using first by blast
    ultimately show ?thesis
      by fastforce
  qed
  from first again show ?thesis
    by blast
qed

theorem sys_alloc_aligned_no_alias_witness:
  "host_allocates_fresh set bump_aligned_malloc \<and>
   sys_alloc_aligned bump_aligned_malloc 64 8 \<lparr>runtime = [(4096, 16)], program = ()\<rparr>
     = Some (4112, \<lparr>runtime = [(4112, 64), (4096, 16)], program = ()\<rparr>) \<and>
   (4112 :: ptr) \<noteq> NULL \<and>
   unat (4112 :: ptr) + unat (64 :: size_t) \<le> 2 ^ 64 \<and>
   (4112 :: ptr, 64 :: size_t)
     \<in> set (runtime \<lparr>runtime = [(4112, 64), (4096, 16)], program = ()\<rparr>) \<and>
   (4096 :: ptr) \<noteq> 4112 \<and> separated (4112, 64) (4096, 16) \<and>
   sys_alloc_aligned bump_aligned_malloc 64 8
       \<lparr>runtime = [(4112, 64), (4096, 16)], program = ()\<rparr>
     = Some (4176, \<lparr>runtime = [(4176, 64), (4112, 64), (4096, 16)], program = ()\<rparr>) \<and>
   (4176 :: ptr) \<noteq> 4112 \<and> separated (4176, 64) (4112, 64)"
proof -
  have a: "host_allocates_fresh set bump_aligned_malloc"
    by (rule bump_fresh)
  have b: "sys_alloc_aligned bump_aligned_malloc 64 8 \<lparr>runtime = [(4096, 16)], program = ()\<rparr>
     = Some (4112, \<lparr>runtime = [(4112, 64), (4096, 16)], program = ()\<rparr>)"
    by (simp add: bump_eval)
  have c: "(4112 :: ptr) \<noteq> NULL"
    by simp
  have d: "sys_alloc_aligned bump_aligned_malloc 64 8
       \<lparr>runtime = [(4112, 64), (4096, 16)], program = ()\<rparr>
     = Some (4176, \<lparr>runtime = [(4176, 64), (4112, 64), (4096, 16)], program = ()\<rparr>)"
    by (simp add: bump_eval)
  have e: "(4176 :: ptr) \<noteq> NULL"
    by simp
  note t = sys_alloc_aligned_no_alias [OF a b c]
  from t have "unat (4112 :: ptr) + unat (64 :: size_t) \<le> 2 ^ 64"
    and "(4112 :: ptr, 64 :: size_t)
           \<in> set (runtime \<lparr>runtime = [(4112, 64), (4096, 16)], program = ()\<rparr>)"
    by blast+
  moreover from t
  have "fst (4096 :: ptr, 16 :: size_t) \<noteq> 4112 \<and> separated (4112, 64) (4096, 16)"
    by simp
  moreover from t d e have "(4176 :: ptr) \<noteq> 4112 \<and> separated (4176, 64) (4112, 64)"
    by blast
  ultimately show ?thesis
    using a b c d by simp
qed

text \<open>
  C8. Apart from what the one delegated host call does to the state the runtime owns,
  \<open>sys_alloc_aligned\<close> changes nothing: after a call that returns, the program's
  state (its variables, globals, locks and memory) is what it was, the process differs
  from the one before in the runtime's state only, and that state is the one the host
  call on the same pair produced.
\<close>

theorem sys_alloc_aligned_frame:
  assumes "sys_alloc_aligned host size' alignment p = Some (r, p')"
  shows "program p' = program p \<and> p' = p\<lparr>runtime := runtime p'\<rparr> \<and>
         host size' alignment (runtime p) = Some (r, runtime p')"
  using assms by (auto simp: sys_alloc_aligned_def split: option.splits)

theorem sys_alloc_aligned_frame_witness:
  "sys_alloc_aligned bump_aligned_malloc 64 8 \<lparr>runtime = [], program = ''guest''\<rparr>
     = Some (4096, \<lparr>runtime = [(4096, 64)], program = ''guest''\<rparr>) \<and>
   program \<lparr>runtime = [(4096 :: ptr, 64 :: size_t)], program = ''guest''\<rparr>
     = program \<lparr>runtime = [] :: (ptr \<times> size_t) list, program = ''guest''\<rparr> \<and>
   bump_aligned_malloc 64 8 [] = Some (4096, [(4096, 64)])"
proof -
  have a: "sys_alloc_aligned bump_aligned_malloc 64 8 \<lparr>runtime = [], program = ''guest''\<rparr>
     = Some (4096, \<lparr>runtime = [(4096, 64)], program = ''guest''\<rparr>)"
    by (simp add: bump_eval)
  from sys_alloc_aligned_frame [OF a] a show ?thesis
    by simp
qed

text \<open>
  C9. \<open>sys_alloc_aligned\<close> terminates for every input pair: its model is a
  definition without recursion, and whenever the host primitive returns, the stub
  returns, having called the host exactly once.
\<close>

theorem sys_alloc_aligned_returns:
  assumes "host size' alignment h = Some y"
  shows "(\<exists>r p'. sys_alloc_aligned host size' alignment \<lparr>runtime = h, program = g\<rparr>
                    = Some (r, p')) \<and>
         (\<exists>r p'. sys_alloc_aligned (traced host) size' alignment
                      \<lparr>runtime = (cs, h), program = g\<rparr> = Some (r, p') \<and>
                  length (fst (runtime p')) = Suc (length cs))"
  using assms by (cases y) (simp add: sys_alloc_aligned_def traced_def)

theorem sys_alloc_aligned_returns_witness:
  "bump_aligned_malloc 64 8 [] = Some (4096, [(4096, 64)]) \<and>
   (\<exists>r p'. sys_alloc_aligned bump_aligned_malloc 64 8 \<lparr>runtime = [], program = ()\<rparr>
              = Some (r, p')) \<and>
   (\<exists>r p'. sys_alloc_aligned (traced bump_aligned_malloc) 64 8
                \<lparr>runtime = ([], []), program = ()\<rparr> = Some (r, p') \<and>
            length (fst (runtime p')) = Suc (length ([] :: (size_t \<times> size_t) list)))"
proof -
  have a: "bump_aligned_malloc 64 8 [] = Some (4096, [(4096, 64)])"
    by (simp add: bump_eval)
  from sys_alloc_aligned_returns [of bump_aligned_malloc _ _ _ _ "()" "[]", OF a] a
  show ?thesis
    by blast
qed

text \<open>
  C10. The pointer \<open>sys_alloc_aligned\<close> returns depends on the host primitive's
  answer to the pair only: two invocations with the same \<open>(size, alignment)\<close>, in
  any two processes and over any two hosts, in which the host's answer is the same (the
  same pointer, or no return in both), give the same answer. The instance compares the
  bump allocator with a constant host in a process whose program state differs.
\<close>

theorem sys_alloc_aligned_depends_on_host_answer_only:
  assumes "map_option fst (host1 size' alignment (runtime p1))
         = map_option fst (host2 size' alignment (runtime p2))"
  shows "map_option fst (sys_alloc_aligned host1 size' alignment p1)
       = map_option fst (sys_alloc_aligned host2 size' alignment p2)"
  using assms by (simp add: sys_alloc_aligned_answer)

theorem sys_alloc_aligned_depends_on_host_answer_only_witness:
  "map_option fst (bump_aligned_malloc 64 8 (runtime \<lparr>runtime = [], program = ''prover''\<rparr>))
     = map_option fst ((\<lambda>size' alignment h. Some (4096, Suc h)) (64 :: size_t) (8 :: size_t)
         (runtime \<lparr>runtime = 7 :: nat, program = True\<rparr>)) \<and>
   map_option fst (sys_alloc_aligned bump_aligned_malloc 64 8 \<lparr>runtime = [], program = ''prover''\<rparr>)
     = map_option fst (sys_alloc_aligned (\<lambda>size' alignment h. Some (4096, Suc h)) 64 8
         \<lparr>runtime = 7 :: nat, program = True\<rparr>)"
proof -
  have a: "map_option fst (bump_aligned_malloc 64 8 (runtime \<lparr>runtime = [], program = ''prover''\<rparr>))
     = map_option fst ((\<lambda>size' alignment h. Some (4096, Suc h)) (64 :: size_t) (8 :: size_t)
         (runtime \<lparr>runtime = 7 :: nat, program = True\<rparr>))"
    by (simp add: bump_eval)
  from sys_alloc_aligned_depends_on_host_answer_only
    [where ?host1.0 = bump_aligned_malloc
       and ?host2.0 = "\<lambda>size' alignment h. Some (4096, Suc h)"
       and ?p1.0 = "\<lparr>runtime = [], program = ''prover''\<rparr>"
       and ?p2.0 = "\<lparr>runtime = 7 :: nat, program = True\<rparr>", OF a] a
  show ?thesis
    by blast
qed

end
